theory Spec2Isabelle
  imports Complex_Main
begin

section \<open>NumPy primitives used by the photon and event lists\<close>

text \<open>
  The arrays of \<^verbatim>\<open>photon_list.py\<close> and \<^verbatim>\<open>event_list.py\<close> are one-dimensional NumPy
  arrays; they are lists here. Float arrays hold \<open>real\<close>s: floating-point arithmetic is
  idealised as exact real arithmetic, and the theorems below say where they need a
  divisor to be non-zero or a square root to have a non-negative argument, because
  NumPy yields \<open>inf\<close> or \<open>nan\<close> there and HOL does not.
  The array \<^verbatim>\<open>NumberOfPhotons\<close> has dtype \<^verbatim>\<open>uint64\<close>: its entries are naturals below
  \<open>2 ^ 64\<close> and sums of them wrap around.
\<close>

datatype error =
  ValueError_more_photons_than_available
  | ValueError_zero_size_array
  | IndexError
  | KeyError
  | GeometryMismatch
  | Undefined_uint64_conversion
  | ValueError_histogram_bins
  | Shape_mismatch

definition u64 :: "nat \<Rightarrow> nat" where
  "u64 n = n mod 2 ^ 64"

text \<open>\<^verbatim>\<open>np.cumsum\<close> on a \<^verbatim>\<open>uint64\<close> array: running sums, each wrapped to 64 bits.\<close>

fun cumsum_from :: "nat \<Rightarrow> nat list \<Rightarrow> nat list" where
  "cumsum_from acc [] = []"
| "cumsum_from acc (n # ns) = u64 (acc + n) # cumsum_from (u64 (acc + n)) ns"

definition np_cumsum :: "nat list \<Rightarrow> nat list" where
  "np_cumsum ns = cumsum_from 0 ns"

text \<open>\<^verbatim>\<open>ndarray.sum()\<close> on a \<^verbatim>\<open>uint64\<close> array.\<close>

definition np_sum :: "nat list \<Rightarrow> nat" where
  "np_sum ns = foldl (\<lambda>acc n. u64 (acc + n)) 0 ns"

text \<open>\<^verbatim>\<open>np.insert(arr, 0, [v])\<close>: a new array with \<open>v\<close> in front.\<close>

definition np_insert0 :: "'a list \<Rightarrow> 'a \<Rightarrow> 'a list" where
  "np_insert0 arr v = v # arr"

text \<open>
  \<^verbatim>\<open>np.searchsorted(a, v, side='right')\<close> for one key \<open>v\<close>: NumPy's binary search,
  which keeps \<open>a[i] \<le> v\<close> for \<open>i < lo\<close> and \<open>v < a[i]\<close> for \<open>i \<ge> hi\<close>.
\<close>

function bsearch_right :: "'a::linorder list \<Rightarrow> 'a \<Rightarrow> nat \<Rightarrow> nat \<Rightarrow> nat" where
  "bsearch_right a v lo hi =
     (if lo < hi then
        (let mid = lo + (hi - lo) div 2
         in if a ! mid \<le> v then bsearch_right a v (mid + 1) hi
            else bsearch_right a v lo mid)
      else lo)"
  by pat_completeness auto
termination
  by (relation "measure (\<lambda>(a, v, lo, hi). hi - lo)") auto

declare bsearch_right.simps [simp del]

definition searchsorted_right :: "'a::linorder list \<Rightarrow> 'a \<Rightarrow> nat" where
  "searchsorted_right a v = bsearch_right a v 0 (length a)"

text \<open>
  Indexing an array with an integer array (\<^verbatim>\<open>arr[idx]\<close>): a negative index counts from
  the end, an index out of range raises \<^verbatim>\<open>IndexError\<close>.
\<close>

definition np_take :: "'a list \<Rightarrow> int list \<Rightarrow> error + 'a list" where
  "np_take arr idx =
     (let n = int (length arr)
      in if list_all (\<lambda>i. - n \<le> i \<and> i < n) idx
         then Inr (map (\<lambda>i. arr ! nat (if i < 0 then i + n else i)) idx)
         else Inl IndexError)"

text \<open>Indexing an array with a boolean mask of the same length (\<^verbatim>\<open>arr[mask]\<close>).\<close>

definition np_mask :: "'a list \<Rightarrow> bool list \<Rightarrow> 'a list" where
  "np_mask arr msk = map fst (filter snd (zip arr msk))"

section \<open>The photon list\<close>

text \<open>
  The parameter \<^verbatim>\<open>DataType\<close>: \<^verbatim>\<open>from_file\<close> and \<^verbatim>\<open>from_data_source\<close> set it to
  \<^verbatim>\<open>"cells"\<close> or \<^verbatim>\<open>"particles"\<close>.
\<close>

datatype data_type = Cells | Particles

text \<open>The dictionary \<^verbatim>\<open>photons\<close>: one entry per emitting cell, except \<^verbatim>\<open>Energy\<close>.\<close>

record photons =
  ph_x :: "real list"
  ph_y :: "real list"
  ph_z :: "real list"
  ph_vx :: "real list"
  ph_vy :: "real list"
  ph_vz :: "real list"
  ph_dx :: "real list"
  NumberOfPhotons :: "nat list"
  Energy :: "real list"

record photon_parameters =
  FiducialExposureTime :: real
  FiducialArea :: real
  FiducialRedshift :: real
  FiducialAngularDiameterDistance :: real
  Dimension :: int
  Width :: real
  DataType :: data_type

text \<open>
  \<^verbatim>\<open>PhotonList\<close>. The field \<open>cosmo\<close> stands for the \<^verbatim>\<open>Cosmology\<close> object of yt, of which
  only \<^verbatim>\<open>angular_diameter_distance(z_i, z_f)\<close> is called.
\<close>

record PhotonList =
  pl_photons :: photons
  pl_parameters :: photon_parameters
  cosmo :: "real \<Rightarrow> real \<Rightarrow> real"
  num_cells :: nat
  p_bins :: "nat list"

text \<open>\<^verbatim>\<open>PhotonList.__init__\<close>\<close>

definition PhotonList_init :: "photons \<Rightarrow> photon_parameters \<Rightarrow> (real \<Rightarrow> real \<Rightarrow> real) \<Rightarrow> PhotonList" where
  "PhotonList_init photons parameters cosmology =
     \<lparr> pl_photons = photons,
       pl_parameters = parameters,
       cosmo = cosmology,
       num_cells = length (ph_x photons),
       p_bins = np_insert0 (np_cumsum (NumberOfPhotons photons)) 0 \<rparr>"

text \<open>
  The owner of photon \<open>j\<close>: \<^verbatim>\<open>np.searchsorted(self.p_bins, idxs, side='right')-1\<close>,
  a signed integer.
\<close>

definition obs_cell :: "nat list \<Rightarrow> nat \<Rightarrow> int" where
  "obs_cell bins j = int (searchsorted_right bins j) - 1"

section \<open>Collaborators of \<^verbatim>\<open>project_photons\<close>\<close>

text \<open>
  The pseudo-random number generator \<^verbatim>\<open>prng\<close> (a NumPy \<^verbatim>\<open>RandomState\<close>) is a
  deterministic function of its seed and of the draws made so far. Its state is the
  list of draws made; the numbers it returns are given by a \<open>generator\<close>.
\<close>

datatype draw = Permutation nat | Uniform real real nat | Normal real real nat

type_synonym rng_state = "draw list"

record generator =
  gen_permutation :: "rng_state \<Rightarrow> nat \<Rightarrow> nat list"
  gen_uniform :: "rng_state \<Rightarrow> real \<Rightarrow> real \<Rightarrow> nat \<Rightarrow> real list"
  gen_normal :: "rng_state \<Rightarrow> real \<Rightarrow> real \<Rightarrow> nat \<Rightarrow> real list"

definition prng_permutation :: "generator \<Rightarrow> rng_state \<Rightarrow> nat \<Rightarrow> nat list \<times> rng_state" where
  "prng_permutation G prng n = (gen_permutation G prng n, prng @ [Permutation n])"

definition prng_uniform :: "generator \<Rightarrow> rng_state \<Rightarrow> real \<Rightarrow> real \<Rightarrow> nat \<Rightarrow> real list \<times> rng_state" where
  "prng_uniform G prng low high n = (gen_uniform G prng low high n, prng @ [Uniform low high n])"

definition prng_normal :: "generator \<Rightarrow> rng_state \<Rightarrow> real \<Rightarrow> real \<Rightarrow> nat \<Rightarrow> real list \<times> rng_state" where
  "prng_normal G prng loc scale n = (gen_normal G prng loc scale n, prng @ [Normal loc scale n])"


type_synonym vec3 = "real \<times> real \<times> real"

text \<open>
  Modelled from the spec: \<^verbatim>\<open>AuxiliaryResponseFile\<close> (\<^verbatim>\<open>pyxsim/responses.py\<close>) is not
  among the sources. The effective-area collaborator advertises a maximum area and
  decides detection of each energy with the generator; it has a file name and may
  name a matching RMF file.
\<close>

record AuxiliaryResponseFile =
  max_area :: real
  filename :: string
  rmffile :: "string option"
  detect_events :: "generator \<Rightarrow> rng_state \<Rightarrow> real list \<Rightarrow> bool list \<times> rng_state"

text \<open>
  Modelled from the spec: the absorption models (\<^verbatim>\<open>pyxsim/spectral_models.py\<close>) are
  not among the sources. A prepared model gives an energy grid \<^verbatim>\<open>emid\<close> and the
  absorption curve \<^verbatim>\<open>get_spectrum()\<close> on it.
\<close>

record absorb_model =
  emid :: "real list"
  get_spectrum :: "real list"

text \<open>
  Library functions that \<^verbatim>\<open>project_photons\<close> calls and no claim is about:
  the unit vectors of yt's \<^verbatim>\<open>Orientation(L, north_vector)\<close>, \<^verbatim>\<open>np.interp\<close> with
  \<^verbatim>\<open>left=0.0, right=0.0\<close>, and \<^verbatim>\<open>np.rad2deg\<close>.
\<close>

record externals =
  Orientation :: "vec3 \<Rightarrow> vec3 option \<Rightarrow> vec3 \<times> vec3 \<times> vec3"
  np_interp :: "real list \<Rightarrow> real list \<Rightarrow> real list \<Rightarrow> real list"
  np_rad2deg :: "real \<Rightarrow> real"

text \<open>
  \<^verbatim>\<open>np.uint64(x)\<close> of a float truncates towards zero. Outside of \<open>(-1, 2 ^ 64)\<close> the
  conversion is undefined in C and its value depends on the platform: the model has
  no value there.
\<close>

definition np_uint64 :: "real \<Rightarrow> nat option" where
  "np_uint64 x = (if - 1 < x \<and> x < 2 ^ 64 then Some (nat \<lfloor>x\<rfloor>) else None)"

text \<open>The argument \<^verbatim>\<open>normal\<close>: one of \<^verbatim>\<open>"x"\<close>, \<^verbatim>\<open>"y"\<close>, \<^verbatim>\<open>"z"\<close>, or a vector.\<close>

datatype axis = Axis_x | Axis_y | Axis_z

datatype normal = Axis axis | Vector vec3

text \<open>The argument \<^verbatim>\<open>area_new\<close>: a number (in \<^verbatim>\<open>cm**2\<close>) or a response file.\<close>

datatype area_arg = AreaValue real | AreaARF AuxiliaryResponseFile

section \<open>The event list\<close>

datatype area_value = AreaNumber real | AreaName string

record event_parameters =
  ExposureTime :: real
  Area :: area_value
  Redshift :: real
  AngularDiameterDistance :: real
  sky_center :: "real \<times> real"
  pix_center :: "real \<times> real"
  dtheta :: real
  ARF :: "string option"
  RMF :: "string option"
  ChannelType :: "string option"
  Mission :: "string option"
  Telescope :: "string option"
  Instrument :: "string option"

record WCS =
  crpix :: "real \<times> real"
  crval :: "real \<times> real"
  cdelt :: "real \<times> real"
  ctype :: "string \<times> string"
  cunit :: "string \<times> string"

text \<open>
  The dictionary \<^verbatim>\<open>events\<close> is a list of (field name, array) pairs in the order in
  which the dictionary iterates.
\<close>

type_synonym event_dict = "(string \<times> real list) list"

record EventList =
  events :: event_dict
  el_parameters :: event_parameters
  num_events :: nat
  wcs :: WCS

text \<open>
  \<^verbatim>\<open>d[k] = v\<close>: replaces the value of a key that is there, and adds a new key at the
  end, where a dictionary that iterates in the order of insertion has it. (Before
  Python 3.7 the place of a new key in the iteration is not fixed.)
\<close>

fun dict_set :: "('k \<times> 'v) list \<Rightarrow> 'k \<Rightarrow> 'v \<Rightarrow> ('k \<times> 'v) list" where
  "dict_set [] k v = [(k, v)]"
| "dict_set ((k', v') # d) k v = (if k' = k then (k, v) # d else (k', v') # dict_set d k v)"

text \<open>\<^verbatim>\<open>EventList.__init__\<close>: \<^verbatim>\<open>events["xpix"]\<close> raises \<^verbatim>\<open>KeyError\<close> without that field.\<close>

definition EventList_init :: "event_dict \<Rightarrow> event_parameters \<Rightarrow> error + EventList" where
  "EventList_init evs params =
     (case map_of evs ''xpix'' of
        None \<Rightarrow> Inl KeyError
      | Some xpix \<Rightarrow>
          Inr \<lparr> events = evs,
                el_parameters = params,
                num_events = length xpix,
                wcs = \<lparr> crpix = pix_center params,
                        crval = sky_center params,
                        cdelt = (- dtheta params, dtheta params),
                        ctype = (''RA---TAN'', ''DEC--TAN''),
                        cunit = (''deg'', ''deg'') \<rparr> \<rparr>)"

section \<open>\<^verbatim>\<open>PhotonList.project_photons\<close>\<close>

subsection \<open>Rescaling to the requested observation\<close>

text \<open>
  Modelled from the spec: \<^verbatim>\<open>parse_value\<close> (\<^verbatim>\<open>pyxsim/utils.py\<close>) is not among the
  sources. The spec divides the requested area and exposure time by the fiducial ones
  as they are, so a requested value is a number in the default unit (\<^verbatim>\<open>s\<close>,
  \<^verbatim>\<open>cm**2\<close>, \<^verbatim>\<open>Mpc\<close>) and \<^verbatim>\<open>parse_value\<close> returns it unchanged.
\<close>

definition parse_value :: "real \<Rightarrow> real" where
  "parse_value v = v"

text \<open>The value of \<^verbatim>\<open>area_new\<close> after line 536 has replaced a response file by its maximum area.\<close>

definition area_number :: "area_arg \<Rightarrow> real" where
  "area_number a = (case a of AreaValue v \<Rightarrow> parse_value v | AreaARF arf \<Rightarrow> max_area arf)"

definition Tratio :: "PhotonList \<Rightarrow> real option \<Rightarrow> real" where
  "Tratio self exp_time_new =
     (case exp_time_new of
        None \<Rightarrow> 1
      | Some t \<Rightarrow> parse_value t / FiducialExposureTime (pl_parameters self))"

definition Aratio :: "PhotonList \<Rightarrow> area_arg option \<Rightarrow> real" where
  "Aratio self area_new =
     (case area_new of
        None \<Rightarrow> 1
      | Some a \<Rightarrow> area_number a / FiducialArea (pl_parameters self))"

definition zobs_of :: "PhotonList \<Rightarrow> real option \<Rightarrow> real option \<Rightarrow> real" where
  "zobs_of self redshift_new dist_new =
     (if redshift_new = None \<and> dist_new = None then FiducialRedshift (pl_parameters self)
      else (case redshift_new of None \<Rightarrow> 0 | Some z \<Rightarrow> z))"

definition D_A_of :: "PhotonList \<Rightarrow> real option \<Rightarrow> real option \<Rightarrow> real" where
  "D_A_of self redshift_new dist_new =
     (case redshift_new of
        None \<Rightarrow>
          (case dist_new of
             None \<Rightarrow> FiducialAngularDiameterDistance (pl_parameters self)
           | Some d \<Rightarrow> parse_value d)
      | Some z \<Rightarrow> cosmo self 0 z)"

definition scale_factor_of :: "PhotonList \<Rightarrow> real option \<Rightarrow> real" where
  "scale_factor_of self redshift_new =
     (case redshift_new of
        None \<Rightarrow> 1
      | Some z \<Rightarrow> (1 + FiducialRedshift (pl_parameters self)) / (1 + z))"

definition Dratio :: "PhotonList \<Rightarrow> real option \<Rightarrow> real option \<Rightarrow> real" where
  "Dratio self redshift_new dist_new =
     (if redshift_new = None \<and> dist_new = None then 1
      else
        (let zobs0 = FiducialRedshift (pl_parameters self);
             D_A0 = FiducialAngularDiameterDistance (pl_parameters self);
             zobs = zobs_of self redshift_new dist_new;
             D_A = D_A_of self redshift_new dist_new
         in D_A0 * D_A0 * (1 + zobs0) ^ 3 / (D_A * D_A * (1 + zobs) ^ 3)))"

definition fak :: "PhotonList \<Rightarrow> area_arg option \<Rightarrow> real option \<Rightarrow> real option \<Rightarrow> real option \<Rightarrow> real" where
  "fak self area_new exp_time_new redshift_new dist_new =
     Aratio self area_new * Tratio self exp_time_new * Dratio self redshift_new dist_new"

text \<open>
  Lines 522 to 567: the number \<^verbatim>\<open>my_n_obs\<close> of photons to keep, or the
  \<^verbatim>\<open>ValueError\<close> of line 561. Where \<^verbatim>\<open>np.uint64\<close> has no defined value the model stops
  with \<open>Undefined_uint64_conversion\<close>.
\<close>

definition my_n_obs :: "PhotonList \<Rightarrow> area_arg option \<Rightarrow> real option \<Rightarrow> real option \<Rightarrow> real option \<Rightarrow> error + nat" where
  "my_n_obs self area_new exp_time_new redshift_new dist_new =
     (let n_ph_tot = np_sum (NumberOfPhotons (pl_photons self))
      in if exp_time_new = None \<and> area_new = None \<and> redshift_new = None \<and> dist_new = None
         then Inr n_ph_tot
         else if fak self area_new exp_time_new redshift_new dist_new > 1
         then Inl ValueError_more_photons_than_available
         else (case np_uint64 (real n_ph_tot * fak self area_new exp_time_new redshift_new dist_new) of
                 None \<Rightarrow> Inl Undefined_uint64_conversion
               | Some n \<Rightarrow> Inr n))"


subsection \<open>Sampling photon indices\<close>

text \<open>Lines 573 to 576.\<close>

definition idxs_of :: "generator \<Rightarrow> rng_state \<Rightarrow> nat \<Rightarrow> nat \<Rightarrow> nat list \<times> rng_state" where
  "idxs_of G prng n_obs n_ph_tot =
     (if n_obs = n_ph_tot then ([0..<n_obs], prng)
      else (case prng_permutation G prng n_ph_tot of
              (perm, prng') \<Rightarrow> (take n_obs perm, prng')))"

subsection \<open>Positions on the sky\<close>

definition axes_lookup :: "axis \<Rightarrow> (photons \<Rightarrow> real list) \<times> (photons \<Rightarrow> real list)" where
  "axes_lookup ax =
     (case ax of
        Axis_x \<Rightarrow> (ph_y, ph_z)
      | Axis_y \<Rightarrow> (ph_z, ph_x)
      | Axis_z \<Rightarrow> (ph_x, ph_y))"

text \<open>\<^verbatim>\<open>a*h[0] + b*h[1] + c*h[2]\<close> on arrays \<open>a\<close>, \<open>b\<close>, \<open>c\<close> of one length.\<close>

definition dot3 :: "real list \<Rightarrow> real list \<Rightarrow> real list \<Rightarrow> vec3 \<Rightarrow> real list" where
  "dot3 a b c h =
     map (\<lambda>(u, v, w). u * fst h + v * fst (snd h) + w * snd (snd h)) (zip a (zip b c))"

definition draw_offsets :: "generator \<Rightarrow> data_type \<Rightarrow> nat \<Rightarrow> rng_state \<Rightarrow> real list \<times> rng_state" where
  "draw_offsets G dt n prng =
     (case dt of
        Cells \<Rightarrow> prng_uniform G prng (- 0.5) 0.5 n
      | Particles \<Rightarrow> prng_normal G prng 0 1 n)"

text \<open>
  Lines 580 to 620: \<open>xsky\<close> and \<open>ysky\<close>. The arrays combined element by element have
  one length each time: \<^verbatim>\<open>my_n_obs\<close> numbers are drawn for \<^verbatim>\<open>my_n_obs\<close> owners.
\<close>

definition sky_positions ::
  "externals \<Rightarrow> generator \<Rightarrow> PhotonList \<Rightarrow> normal \<Rightarrow> vec3 option \<Rightarrow> int list \<Rightarrow> real list \<Rightarrow> nat
     \<Rightarrow> rng_state \<Rightarrow> (error + real list \<times> real list) \<times> rng_state" where
  "sky_positions ext G self nrm north_vector obs_cells delta n_obs prng =
     (let ph = pl_photons self; dt = DataType (pl_parameters self)
      in case nrm of
           Axis ax \<Rightarrow>
             (case draw_offsets G dt n_obs prng of (xsky, prng1) \<Rightarrow>
              case draw_offsets G dt n_obs prng1 of (ysky, prng2) \<Rightarrow>
              case np_take (fst (axes_lookup ax) ph) obs_cells of
                Inl e \<Rightarrow> (Inl e, prng2)
              | Inr px \<Rightarrow>
                  (case np_take (snd (axes_lookup ax) ph) obs_cells of
                     Inl e \<Rightarrow> (Inl e, prng2)
                   | Inr py \<Rightarrow>
                       (Inr (map2 (+) (map2 (*) xsky delta) px,
                             map2 (+) (map2 (*) ysky delta) py), prng2)))
         | Vector L \<Rightarrow>
             (case Orientation ext L north_vector of (x_hat, y_hat, z_hat) \<Rightarrow>
              case draw_offsets G dt n_obs prng of (ox, prng1) \<Rightarrow>
              case draw_offsets G dt n_obs prng1 of (oy, prng2) \<Rightarrow>
              case draw_offsets G dt n_obs prng2 of (oz, prng3) \<Rightarrow>
              case np_take (ph_x ph) obs_cells of
                Inl e \<Rightarrow> (Inl e, prng3)
              | Inr px \<Rightarrow>
                  (case np_take (ph_y ph) obs_cells of
                     Inl e \<Rightarrow> (Inl e, prng3)
                   | Inr py \<Rightarrow>
                       (case np_take (ph_z ph) obs_cells of
                          Inl e \<Rightarrow> (Inl e, prng3)
                        | Inr pz \<Rightarrow>
                            (let px' = map2 (+) (map2 (*) ox delta) px;
                                 py' = map2 (+) (map2 (*) oy delta) py;
                                 pz' = map2 (+) (map2 (*) oz delta) pz
                             in (Inr (dot3 px' py' pz' x_hat, dot3 px' py' pz' y_hat), prng3))))))"

subsection \<open>Observed energies\<close>

text \<open>The speed of light of yt, in \<^verbatim>\<open>cm/s\<close>; velocities are stored in \<^verbatim>\<open>km/s\<close>.\<close>

definition clight :: real where
  "clight = 29979245800"

definition in_cgs :: "real \<Rightarrow> real" where
  "in_cgs v = v * 100000"

text \<open>Lines 594 and 608 to 610: the velocity \<open>vz\<close> of every cell along the line of sight.\<close>

definition vz_of :: "externals \<Rightarrow> photons \<Rightarrow> normal \<Rightarrow> vec3 option \<Rightarrow> real list" where
  "vz_of ext ph nrm north_vector =
     (case nrm of
        Axis ax \<Rightarrow> (case ax of Axis_x \<Rightarrow> ph_vx ph | Axis_y \<Rightarrow> ph_vy ph | Axis_z \<Rightarrow> ph_vz ph)
      | Vector L \<Rightarrow>
          (case Orientation ext L north_vector of
             (x_hat, y_hat, z_hat) \<Rightarrow> dot3 (ph_vx ph) (ph_vy ph) (ph_vz ph) z_hat))"

text \<open>Lines 625 and 626, for one cell.\<close>

definition doppler_shift :: "real \<Rightarrow> real" where
  "doppler_shift vz =
     (let shift = - in_cgs vz / clight
      in sqrt ((1 - shift) / (1 + shift)))"

text \<open>Lines 622 to 628.\<close>

definition eobs_of ::
  "externals \<Rightarrow> PhotonList \<Rightarrow> normal \<Rightarrow> vec3 option \<Rightarrow> bool \<Rightarrow> nat list \<Rightarrow> int list \<Rightarrow> real
     \<Rightarrow> error + real list" where
  "eobs_of ext self nrm north_vector no_shifting idxs obs_cells scale_factor =
     (case np_take (Energy (pl_photons self)) (map int idxs) of
        Inl e \<Rightarrow> Inl e
      | Inr rest \<Rightarrow>
          if no_shifting then Inr (map (\<lambda>e. e * scale_factor) rest)
          else
            (case np_take (map doppler_shift (vz_of ext (pl_photons self) nrm north_vector)) obs_cells of
               Inl e \<Rightarrow> Inl e
             | Inr shift \<Rightarrow> Inr (map (\<lambda>e. e * scale_factor) (map2 (*) rest shift))))"


subsection \<open>Absorption and detection\<close>

text \<open>\<^verbatim>\<open>ndarray.max()\<close>: a \<^verbatim>\<open>ValueError\<close> on an empty array.\<close>

definition np_max :: "real list \<Rightarrow> error + real" where
  "np_max arr = (case arr of [] \<Rightarrow> Inl ValueError_zero_size_array | a # as \<Rightarrow> Inr (fold max as a))"

text \<open>Lines 630 to 648: the mask \<open>detected\<close>.\<close>

definition detected_of ::
  "externals \<Rightarrow> generator \<Rightarrow> absorb_model option \<Rightarrow> AuxiliaryResponseFile option \<Rightarrow> real list
     \<Rightarrow> rng_state \<Rightarrow> (error + bool list) \<times> rng_state" where
  "detected_of ext G absorb arf eobs prng =
     (let not_abs =
        (case absorb of
           None \<Rightarrow> (Inr (replicate (length eobs) True), prng)
         | Some m \<Rightarrow>
             (let aspec = get_spectrum m;
                  absorb_curve = np_interp ext eobs (emid m) aspec
              in case np_max aspec of
                   Inl e \<Rightarrow> (Inl e, prng)
                 | Inr amax \<Rightarrow>
                     (case prng_uniform G prng 0 1 (length eobs) of
                        (u, prng1) \<Rightarrow>
                          (Inr (map2 (\<lambda>r a. amax * r < a) u absorb_curve), prng1))))
      in case not_abs of
           (Inl e, prng1) \<Rightarrow> (Inl e, prng1)
         | (Inr na, prng1) \<Rightarrow>
             (case arf of
                None \<Rightarrow> (Inr (map2 (\<and>) na (replicate (length eobs) True)), prng1)
              | Some a \<Rightarrow>
                  (case detect_events a G prng1 eobs of
                     (det, prng2) \<Rightarrow> (Inr (map2 (\<and>) na det), prng2))))"

subsection \<open>The whole projection\<close>

text \<open>The response file of line 535, if \<^verbatim>\<open>area_new\<close> is one.\<close>

definition arf_of :: "area_arg option \<Rightarrow> AuxiliaryResponseFile option" where
  "arf_of area_new = (case area_new of Some (AreaARF arf) \<Rightarrow> Some arf | _ \<Rightarrow> None)"

text \<open>Lines 516, 538 to 540 and 666 to 678: the parameters of the event list.\<close>

definition event_parameters_of ::
  "externals \<Rightarrow> PhotonList \<Rightarrow> area_arg option \<Rightarrow> real option \<Rightarrow> real option \<Rightarrow> real option
     \<Rightarrow> (real \<times> real) option \<Rightarrow> event_parameters" where
  "event_parameters_of ext self area_new exp_time_new redshift_new dist_new sky_center_arg =
     (let nx = Dimension (pl_parameters self);
          D_A = D_A_of self redshift_new dist_new;
          dx_min = Width (pl_parameters self) / real_of_int (Dimension (pl_parameters self))
      in \<lparr> ExposureTime =
             (case exp_time_new of
                None \<Rightarrow> FiducialExposureTime (pl_parameters self)
              | Some t \<Rightarrow> t),
           Area =
             (case area_new of
                None \<Rightarrow> AreaNumber (FiducialArea (pl_parameters self))
              | Some a \<Rightarrow> AreaNumber (case a of AreaValue v \<Rightarrow> v | AreaARF arf \<Rightarrow> max_area arf)),
           Redshift = zobs_of self redshift_new dist_new,
           AngularDiameterDistance = D_A,
           sky_center = (case sky_center_arg of None \<Rightarrow> (30, 45) | Some c \<Rightarrow> c),
           pix_center = (0.5 * (real_of_int nx + 1), 0.5 * (real_of_int nx + 1)),
           dtheta = np_rad2deg ext (dx_min / D_A),
           ARF = map_option filename (arf_of area_new),
           RMF = Option.bind (arf_of area_new) rmffile,
           ChannelType = None,
           Mission = None,
           Telescope = None,
           Instrument = None \<rparr>)"

text \<open>Lines 650 to 657: the dictionary \<^verbatim>\<open>events\<close>, its keys in the order of insertion.\<close>

definition events_of :: "PhotonList \<Rightarrow> real list \<Rightarrow> real list \<Rightarrow> real list \<Rightarrow> bool list \<Rightarrow> event_dict" where
  "events_of self xsky ysky eobs detected =
     (let nx = Dimension (pl_parameters self);
          dx_min = Width (pl_parameters self) / real_of_int (Dimension (pl_parameters self))
      in [(''xpix'', map (\<lambda>v. v / dx_min + 0.5 * (real_of_int nx + 1)) (np_mask xsky detected)),
          (''ypix'', map (\<lambda>v. v / dx_min + 0.5 * (real_of_int nx + 1)) (np_mask ysky detected)),
          (''eobs'', np_mask eobs detected)])"

text \<open>
  \<^verbatim>\<open>project_photons\<close>, run by one process: \<^verbatim>\<open>comm.mpi_allreduce\<close> and
  \<^verbatim>\<open>comm.par_combine_object\<close> return their argument. The arguments \<^verbatim>\<open>responses\<close> and
  \<^verbatim>\<open>convolve_energies\<close> are not used by the method. The result comes with the photon
  list and the state of the generator as the call leaves them. When both
  \<^verbatim>\<open>redshift_new\<close> and \<^verbatim>\<open>dist_new\<close> are given, lines 494 to 496 write a message to the
  log and the method goes on.
\<close>

definition project_photons ::
  "externals \<Rightarrow> generator \<Rightarrow> PhotonList \<Rightarrow> normal \<Rightarrow> area_arg option \<Rightarrow> real option \<Rightarrow> real option
     \<Rightarrow> real option \<Rightarrow> absorb_model option \<Rightarrow> (real \<times> real) option \<Rightarrow> bool \<Rightarrow> vec3 option
     \<Rightarrow> rng_state \<Rightarrow> (PhotonList \<times> rng_state) \<times> (error + EventList)" where
  "project_photons ext G self nrm area_new exp_time_new redshift_new dist_new absorb
       sky_center_arg no_shifting north_vector prng =
     (let dx = ph_dx (pl_photons self);
          n_ph_tot = np_sum (NumberOfPhotons (pl_photons self));
          scale_factor = scale_factor_of self redshift_new
      in case my_n_obs self area_new exp_time_new redshift_new dist_new of
           Inl e \<Rightarrow> ((self, prng), Inl e)
         | Inr n_obs \<Rightarrow>
             (case idxs_of G prng n_obs n_ph_tot of (idxs, prng1) \<Rightarrow>
              let obs_cells = map (obs_cell (p_bins self)) idxs
              in case np_take dx obs_cells of
                   Inl e \<Rightarrow> ((self, prng1), Inl e)
                 | Inr delta \<Rightarrow>
                     (case sky_positions ext G self nrm north_vector obs_cells delta n_obs prng1 of
                        (Inl e, prng2) \<Rightarrow> ((self, prng2), Inl e)
                      | (Inr (xsky, ysky), prng2) \<Rightarrow>
                          (case eobs_of ext self nrm north_vector no_shifting idxs obs_cells
                                  scale_factor of
                             Inl e \<Rightarrow> ((self, prng2), Inl e)
                           | Inr eobs \<Rightarrow>
                               (case detected_of ext G absorb (arf_of area_new) eobs prng2 of
                                  (Inl e, prng3) \<Rightarrow> ((self, prng3), Inl e)
                                | (Inr detected, prng3) \<Rightarrow>
                                    ((self, prng3),
                                     EventList_init (events_of self xsky ysky eobs detected)
                                       (event_parameters_of ext self area_new exp_time_new
                                          redshift_new dist_new sky_center_arg)))))))"

section \<open>Operations of the event list\<close>


text \<open>
  Modelled from the spec: \<^verbatim>\<open>assert_same_wcs\<close> (\<^verbatim>\<open>yt.utilities.fits_image\<close>) is not
  among the sources. By the spec a merge fails with \<^verbatim>\<open>GeometryMismatch\<close> unless the
  detector geometry (pixel scale, reference pixel, sky reference) of the two lists is
  identical. The value is whether the check passes.
\<close>

definition assert_same_wcs :: "WCS \<Rightarrow> WCS \<Rightarrow> bool" where
  "assert_same_wcs wcs1 wcs2 \<longleftrightarrow> wcs1 = wcs2"

text \<open>
  Modelled from the spec: \<^verbatim>\<open>validate_parameters\<close> (\<^verbatim>\<open>photon_simulator/utils.py\<close>) is
  not among the sources. By the spec a merge fails with \<^verbatim>\<open>GeometryMismatch\<close> unless the
  parameter sets of the two lists match. The value is whether the check passes.
\<close>

definition validate_parameters :: "event_parameters \<Rightarrow> event_parameters \<Rightarrow> bool" where
  "validate_parameters first second \<longleftrightarrow> first = second"

text \<open>
  Lines 83 to 87 of \<^verbatim>\<open>EventList.__add__\<close>: the items of the two dictionaries are
  paired by position, and each pair is stored under the key of the left item.
\<close>

definition add_events :: "event_dict \<Rightarrow> event_dict \<Rightarrow> event_dict" where
  "add_events evs1 evs2 =
     foldl (\<lambda>d ((k1, v1), (k2, v2)). dict_set d k1 (v1 @ v2)) [] (zip evs1 evs2)"

text \<open>\<^verbatim>\<open>EventList.__add__\<close>\<close>

definition EventList_add :: "EventList \<Rightarrow> EventList \<Rightarrow> error + EventList" where
  "EventList_add self other =
     (if \<not> assert_same_wcs (wcs self) (wcs other) then Inl GeometryMismatch
      else if \<not> validate_parameters (el_parameters self) (el_parameters other) then Inl GeometryMismatch
      else EventList_init (add_events (events self) (events other)) (el_parameters self))"







section \<open>Example inputs\<close>

text \<open>Two cells with two and three photons, at redshift 0.05.\<close>

definition example_photons :: photons where
  "example_photons =
     \<lparr> ph_x = [0, 1], ph_y = [0, 1], ph_z = [0, 0],
       ph_vx = [0, 0], ph_vy = [0, 0], ph_vz = [0, 0],
       ph_dx = [1, 1],
       NumberOfPhotons = [2, 3],
       Energy = [1, 2, 3, 4, 5] \<rparr>"

definition example_parameters :: photon_parameters where
  "example_parameters =
     \<lparr> FiducialExposureTime = 100000,
       FiducialArea = 1000,
       FiducialRedshift = 1 / 20,
       FiducialAngularDiameterDistance = 200,
       Dimension = 4,
       Width = 4,
       DataType = Cells \<rparr>"

definition example_cosmo :: "real \<Rightarrow> real \<Rightarrow> real" where
  "example_cosmo z_i z_f = 4000 * (z_f - z_i)"

definition example_photon_list :: PhotonList where
  "example_photon_list = PhotonList_init example_photons example_parameters example_cosmo"

text \<open>A generator that returns the reversed range and the centre of every interval.\<close>

definition example_generator :: generator where
  "example_generator =
     \<lparr> gen_permutation = (\<lambda>s n. rev [0..<n]),
       gen_uniform = (\<lambda>s low high n. replicate n ((low + high) / 2)),
       gen_normal = (\<lambda>s loc scale n. replicate n loc) \<rparr>"

definition example_externals :: externals where
  "example_externals =
     \<lparr> Orientation = (\<lambda>L north. ((1, 0, 0), (0, 1, 0), (0, 0, 1))),
       np_interp = (\<lambda>x xp fp. replicate (length x) 0),
       np_rad2deg = (\<lambda>r. r * 180 / pi) \<rparr>"


text \<open>
  Event lists of one event each on a 3 by 3 image, with one set of parameters, as
  \<^verbatim>\<open>EventList.__init__\<close> builds them: \<open>example_a\<close> and \<open>example_b\<close> hold the fields
  \<^verbatim>\<open>xpix\<close>, \<^verbatim>\<open>ypix\<close>, \<^verbatim>\<open>eobs\<close>; \<open>example_c\<close> holds a channel field \<^verbatim>\<open>PI\<close> as well;
  the dictionary of \<open>example_d\<close> iterates in another order.
\<close>

definition example_event_parameters :: event_parameters where
  "example_event_parameters =
     \<lparr> ExposureTime = 100000, Area = AreaNumber 1000, Redshift = 1 / 20,
       AngularDiameterDistance = 200, sky_center = (30, 45), pix_center = (2, 2),
       dtheta = 1 / 1000, ARF = None, RMF = None, ChannelType = None, Mission = None,
       Telescope = None, Instrument = None \<rparr>"

definition example_wcs :: WCS where
  "example_wcs =
     \<lparr> crpix = (2, 2), crval = (30, 45), cdelt = (- (1 / 1000), 1 / 1000),
       ctype = (''RA---TAN'', ''DEC--TAN''), cunit = (''deg'', ''deg'') \<rparr>"

definition example_a :: EventList where
  "example_a =
     \<lparr> events = [(''xpix'', [1]), (''ypix'', [2]), (''eobs'', [3])],
       el_parameters = example_event_parameters, num_events = 1, wcs = example_wcs \<rparr>"



definition example_d :: EventList where
  "example_d =
     \<lparr> events = [(''ypix'', [20]), (''xpix'', [10]), (''eobs'', [30])],
       el_parameters = example_event_parameters, num_events = 1, wcs = example_wcs \<rparr>"


section \<open>Binary search and the cumulative index\<close>

lemma bsearch_right_spec:
  assumes "sorted a" and "lo \<le> hi" and "hi \<le> length a"
    and "\<forall>i<lo. a ! i \<le> v" and "\<forall>i. hi \<le> i \<and> i < length a \<longrightarrow> v < a ! i"
  shows "lo \<le> bsearch_right a v lo hi \<and> bsearch_right a v lo hi \<le> hi
       \<and> (\<forall>i<bsearch_right a v lo hi. a ! i \<le> v)
       \<and> (\<forall>i. bsearch_right a v lo hi \<le> i \<and> i < length a \<longrightarrow> v < a ! i)"
  using assms
proof (induction a v lo hi rule: bsearch_right.induct)
  case (1 a v lo hi)
  show ?case
  proof (cases "lo < hi")
    case False
    then have "bsearch_right a v lo hi = lo"
      by (simp add: bsearch_right.simps [of a v lo hi])
    with False "1.prems" show ?thesis by simp
  next
    case True
    define mid where "mid = lo + (hi - lo) div 2"
    have mid: "lo \<le> mid" "mid < hi" using True by (simp_all add: mid_def)
    show ?thesis
    proof (cases "a ! mid \<le> v")
      case le: True
      have below: "\<forall>i<mid + 1. a ! i \<le> v"
      proof (intro allI impI)
        fix i assume "i < mid + 1"
        then have "i \<le> mid" by simp
        with \<open>sorted a\<close> mid "1.prems"(3) have "a ! i \<le> a ! mid"
          by (simp add: sorted_nth_mono)
        with le show "a ! i \<le> v" by simp
      qed
      have "mid + 1 \<le> bsearch_right a v (mid + 1) hi \<and> bsearch_right a v (mid + 1) hi \<le> hi
       \<and> (\<forall>i<bsearch_right a v (mid + 1) hi. a ! i \<le> v)
       \<and> (\<forall>i. bsearch_right a v (mid + 1) hi \<le> i \<and> i < length a \<longrightarrow> v < a ! i)"
        using "1.IH"(1) [OF True mid_def le] "1.prems" mid below by simp
      moreover have "bsearch_right a v lo hi = bsearch_right a v (mid + 1) hi"
        using True le by (simp add: bsearch_right.simps [of a v lo hi] mid_def Let_def)
      ultimately show ?thesis using mid by simp
    next
      case gt: False
      have above: "\<forall>i. mid \<le> i \<and> i < length a \<longrightarrow> v < a ! i"
      proof (intro allI impI)
        fix i assume "mid \<le> i \<and> i < length a"
        with \<open>sorted a\<close> have "a ! mid \<le> a ! i"
          by (simp add: sorted_nth_mono)
        with gt show "v < a ! i" by simp
      qed
      have "lo \<le> bsearch_right a v lo mid \<and> bsearch_right a v lo mid \<le> mid
       \<and> (\<forall>i<bsearch_right a v lo mid. a ! i \<le> v)
       \<and> (\<forall>i. bsearch_right a v lo mid \<le> i \<and> i < length a \<longrightarrow> v < a ! i)"
        using "1.IH"(2) [OF True mid_def gt] "1.prems" mid above by simp
      moreover have "bsearch_right a v lo hi = bsearch_right a v lo mid"
        using True gt by (simp add: bsearch_right.simps [of a v lo hi] mid_def Let_def)
      ultimately show ?thesis using mid by simp
    qed
  qed
qed

lemma searchsorted_right_spec:
  assumes "sorted a"
  shows "searchsorted_right a v \<le> length a
       \<and> (\<forall>i<searchsorted_right a v. a ! i \<le> v)
       \<and> (\<forall>i. searchsorted_right a v \<le> i \<and> i < length a \<longrightarrow> v < a ! i)"
proof -
  have "\<forall>i<0. a ! i \<le> v" and "\<forall>i. length a \<le> i \<and> i < length a \<longrightarrow> v < a ! i"
    by auto
  with bsearch_right_spec [OF assms, of 0 "length a" v] show ?thesis
    by (simp add: searchsorted_right_def)
qed

lemma length_cumsum_from: "length (cumsum_from acc ns) = length ns"
  by (induction ns arbitrary: acc) simp_all

lemma cumsum_from_nth:
  "acc + sum_list ns < 2 ^ 64 \<Longrightarrow> k < length ns \<Longrightarrow>
   cumsum_from acc ns ! k = acc + sum_list (take (Suc k) ns)"
proof (induction ns arbitrary: acc k)
  case Nil
  then show ?case by simp
next
  case (Cons n ns)
  have small: "u64 (acc + n) = acc + n"
    using Cons.prems(1) by (simp add: u64_def)
  show ?case
  proof (cases k)
    case 0
    then show ?thesis using small by simp
  next
    case (Suc k')
    with Cons.prems have "cumsum_from (acc + n) ns ! k' = acc + n + sum_list (take (Suc k') ns)"
      using Cons.IH [of "acc + n" k'] by (simp add: add.assoc)
    with Suc small show ?thesis by simp
  qed
qed

lemma foldl_u64_no_wrap:
  "acc + sum_list ns < 2 ^ 64 \<Longrightarrow> foldl (\<lambda>acc n. u64 (acc + n)) acc ns = acc + sum_list ns"
proof (induction ns arbitrary: acc)
  case Nil
  then show ?case by simp
next
  case (Cons n ns)
  have "u64 (acc + n) = acc + n"
    using Cons.prems by (simp add: u64_def)
  with Cons.IH [of "acc + n"] Cons.prems show ?case by (simp add: add.assoc)
qed

lemma np_sum_no_wrap: "sum_list ns < 2 ^ 64 \<Longrightarrow> np_sum ns = sum_list ns"
  using foldl_u64_no_wrap [of 0 ns] by (simp add: np_sum_def)

lemma p_bins_nth:
  assumes "sum_list ns < 2 ^ 64" and "i \<le> length ns"
  shows "np_insert0 (np_cumsum ns) 0 ! i = sum_list (take i ns)"
proof (cases i)
  case 0
  then show ?thesis by (simp add: np_insert0_def)
next
  case (Suc k)
  with assms show ?thesis
    using cumsum_from_nth [of 0 ns k] by (simp add: np_insert0_def np_cumsum_def)
qed

lemma length_p_bins: "length (np_insert0 (np_cumsum ns) 0) = Suc (length ns)"
  by (simp add: np_insert0_def np_cumsum_def length_cumsum_from)

lemma sum_list_take_mono: "i \<le> j \<Longrightarrow> sum_list (take i ns) \<le> sum_list (take j (ns :: nat list))"
proof -
  assume "i \<le> j"
  then have "take j ns = take i ns @ take (j - i) (drop i ns)"
    by (metis le_add_diff_inverse take_add)
  then show ?thesis by simp
qed

lemma sorted_p_bins:
  assumes "sum_list ns < 2 ^ 64"
  shows "sorted (np_insert0 (np_cumsum ns) 0)"
  unfolding sorted_iff_nth_mono
proof (intro allI impI)
  fix i j
  assume "i \<le> j" and "j < length (np_insert0 (np_cumsum ns) 0)"
  then have "i \<le> length ns" and "j \<le> length ns"
    by (simp_all add: length_p_bins)
  with assms \<open>i \<le> j\<close> show "np_insert0 (np_cumsum ns) 0 ! i \<le> np_insert0 (np_cumsum ns) 0 ! j"
    by (simp add: p_bins_nth sum_list_take_mono)
qed

text \<open>
  The owner found by the right-side search in a cumulative index \<open>bins\<close> that starts at
  0, is sorted and ends at \<open>n_tot\<close>.
\<close>

lemma obs_cell_owner:
  assumes srt: "sorted bins" and len: "length bins = Suc n"
    and first: "bins ! 0 = 0" and last: "bins ! n = n_tot" and j: "j < n_tot"
  shows "0 \<le> obs_cell bins j \<and> obs_cell bins j < int n
       \<and> bins ! nat (obs_cell bins j) \<le> j \<and> j < bins ! nat (obs_cell bins j + 1)"
proof -
  define r where "r = searchsorted_right bins j"
  have spec: "r \<le> length bins" "\<forall>i<r. bins ! i \<le> j"
    "\<forall>i. r \<le> i \<and> i < length bins \<longrightarrow> j < bins ! i"
    using searchsorted_right_spec [OF srt, of j] by (simp_all add: r_def)
  have "r \<noteq> 0"
  proof
    assume "r = 0"
    with spec(3) len have "j < bins ! 0" by simp
    with first show False by simp
  qed
  moreover have "r \<le> n"
  proof (rule ccontr)
    assume "\<not> r \<le> n"
    then have "n < r" by simp
    with spec(2) have "bins ! n \<le> j" by simp
    with last j show False by simp
  qed
  ultimately have r: "0 < r" "r \<le> n" by simp_all
  then have "bins ! (r - 1) \<le> j" using spec(2) by simp
  moreover have "j < bins ! r" using spec(3) r len by simp
  moreover have "nat (int r - 1) = r - 1" and "nat (int r - 1 + 1) = r"
    using r by simp_all
  ultimately show ?thesis using r by (simp add: obs_cell_def r_def [symmetric])
qed

text \<open>
  C4. The cumulative index built by \<^verbatim>\<open>PhotonList.__init__\<close> starts at 0, is
  non-decreasing and ends, at index \<open>num_cells\<close>, at the total photon count; and the
  owner of every photon index \<open>j\<close> below the total, found by the right-side binary
  search minus one, is a cell with \<open>p_bins[owner] \<le> j < p_bins[owner+1]\<close>.
  The photon list is well formed: there are as many photon counts as cells, and the
  counts add up to less than \<open>2 ^ 64\<close> (they index the array \<^verbatim>\<open>Energy\<close>).
\<close>

theorem p_bins_cumulative_index:
  assumes "length (ph_x photons) = length (NumberOfPhotons photons)"
    and "sum_list (NumberOfPhotons photons) < 2 ^ 64"
  shows "p_bins (PhotonList_init photons parameters cosmology) ! 0 = 0
       \<and> sorted (p_bins (PhotonList_init photons parameters cosmology))
       \<and> p_bins (PhotonList_init photons parameters cosmology)
           ! num_cells (PhotonList_init photons parameters cosmology)
         = np_sum (NumberOfPhotons photons)
       \<and> (\<forall>j<np_sum (NumberOfPhotons photons).
            0 \<le> obs_cell (p_bins (PhotonList_init photons parameters cosmology)) j
          \<and> obs_cell (p_bins (PhotonList_init photons parameters cosmology)) j
              < int (num_cells (PhotonList_init photons parameters cosmology))
          \<and> p_bins (PhotonList_init photons parameters cosmology)
              ! nat (obs_cell (p_bins (PhotonList_init photons parameters cosmology)) j) \<le> j
          \<and> j < p_bins (PhotonList_init photons parameters cosmology)
              ! nat (obs_cell (p_bins (PhotonList_init photons parameters cosmology)) j + 1))"
proof -
  define ns where "ns = NumberOfPhotons photons"
  define bins where "bins = np_insert0 (np_cumsum ns) 0"
  have pb: "p_bins (PhotonList_init photons parameters cosmology) = bins"
    and nc: "num_cells (PhotonList_init photons parameters cosmology) = length ns"
    using assms(1) by (simp_all add: PhotonList_init_def bins_def ns_def)
  have small: "sum_list ns < 2 ^ 64" using assms(2) by (simp add: ns_def)
  have first: "bins ! 0 = 0" by (simp add: bins_def np_insert0_def)
  have srt: "sorted bins" using small by (simp add: bins_def sorted_p_bins)
  have tot: "np_sum ns = sum_list ns" using small by (rule np_sum_no_wrap)
  have last: "bins ! length ns = np_sum ns"
    using p_bins_nth [OF small, of "length ns"] tot by (simp add: bins_def)
  have len: "length bins = Suc (length ns)" by (simp add: bins_def length_p_bins)
  have "\<forall>j<np_sum ns. 0 \<le> obs_cell bins j \<and> obs_cell bins j < int (length ns)
       \<and> bins ! nat (obs_cell bins j) \<le> j \<and> j < bins ! nat (obs_cell bins j + 1)"
    using obs_cell_owner [OF srt len first last] by blast
  with first srt last show ?thesis
    unfolding pb nc ns_def [symmetric] by simp
qed

theorem p_bins_cumulative_index_witness:
  "length (ph_x example_photons) = length (NumberOfPhotons example_photons)
   \<and> sum_list (NumberOfPhotons example_photons) < 2 ^ 64
   \<and> p_bins example_photon_list = [0, 2, 5]
   \<and> np_sum (NumberOfPhotons example_photons) = 5
   \<and> p_bins example_photon_list ! nat (obs_cell (p_bins example_photon_list) 2) \<le> 2
   \<and> 2 < p_bins example_photon_list ! nat (obs_cell (p_bins example_photon_list) 2 + 1)"
proof -
  have h1: "length (ph_x example_photons) = length (NumberOfPhotons example_photons)"
    by (simp add: example_photons_def)
  have h2: "sum_list (NumberOfPhotons example_photons) < 2 ^ 64"
    by (simp add: example_photons_def)
  have n: "np_sum (NumberOfPhotons example_photons) = 5"
    by (simp add: np_sum_def example_photons_def u64_def)
  have b: "p_bins example_photon_list = [0, 2, 5]"
    by (simp add: example_photon_list_def PhotonList_init_def np_insert0_def np_cumsum_def
        example_photons_def u64_def)
  from p_bins_cumulative_index [OF h1 h2, of example_parameters example_cosmo]
  have "\<forall>j<5. p_bins example_photon_list ! nat (obs_cell (p_bins example_photon_list) j) \<le> j
          \<and> j < p_bins example_photon_list ! nat (obs_cell (p_bins example_photon_list) j + 1)"
    unfolding n example_photon_list_def [symmetric] by blast
  then have "p_bins example_photon_list ! nat (obs_cell (p_bins example_photon_list) 2) \<le> 2
          \<and> 2 < p_bins example_photon_list ! nat (obs_cell (p_bins example_photon_list) 2 + 1)"
    by simp
  with h1 h2 n b show ?thesis by simp
qed

section \<open>Errors of \<^verbatim>\<open>project_photons\<close>\<close>








text \<open>
  What a call that returns an event list has computed on the way: the stages of the
  projection, and the event list built from their results.
\<close>

lemma project_photons_stages:
  assumes "project_photons ext G self nrm area_new exp_time_new redshift_new dist_new absorb
       sky_center_arg no_shifting north_vector prng = (st, Inr ev)"
  shows "\<exists>n_obs idxs prng1 delta xsky ysky prng2 eobs detected prng3.
           my_n_obs self area_new exp_time_new redshift_new dist_new = Inr n_obs
         \<and> idxs_of G prng n_obs (np_sum (NumberOfPhotons (pl_photons self))) = (idxs, prng1)
         \<and> np_take (ph_dx (pl_photons self)) (map (obs_cell (p_bins self)) idxs) = Inr delta
         \<and> sky_positions ext G self nrm north_vector (map (obs_cell (p_bins self)) idxs) delta
               n_obs prng1 = (Inr (xsky, ysky), prng2)
         \<and> eobs_of ext self nrm north_vector no_shifting idxs (map (obs_cell (p_bins self)) idxs)
               (scale_factor_of self redshift_new) = Inr eobs
         \<and> detected_of ext G absorb (arf_of area_new) eobs prng2 = (Inr detected, prng3)
         \<and> st = (self, prng3)
         \<and> events ev = events_of self xsky ysky eobs detected
         \<and> el_parameters ev
             = event_parameters_of ext self area_new exp_time_new redshift_new dist_new
                 sky_center_arg"
  using assms
  by (auto simp: project_photons_def Let_def EventList_init_def events_of_def
      split: sum.splits prod.splits)





section \<open>The number of photons to keep and their indices\<close>









section \<open>Observed energies\<close>













section \<open>A new redshift together with a new distance\<close>

lemma project_photons_dist_new_ignored:
  "project_photons ext G self nrm area_new exp_time_new (Some z) (Some d) absorb
       sky_center_arg no_shifting north_vector prng
   = project_photons ext G self nrm area_new exp_time_new (Some z) None absorb
       sky_center_arg no_shifting north_vector prng"
proof -
  have m: "my_n_obs self area_new exp_time_new (Some z) (Some d)
      = my_n_obs self area_new exp_time_new (Some z) None"
    by (simp add: my_n_obs_def fak_def Dratio_def zobs_of_def D_A_of_def)
  have e: "event_parameters_of ext self area_new exp_time_new (Some z) (Some d) sky_center_arg
      = event_parameters_of ext self area_new exp_time_new (Some z) None sky_center_arg"
    by (simp add: event_parameters_of_def zobs_of_def D_A_of_def)
  show ?thesis unfolding project_photons_def m e ..
qed

lemma example_obs_cells:
  "map (obs_cell (p_bins example_photon_list)) [0, 1, 2, 3, 4] = [0, 0, 1, 1, 1]"
proof -
  have b: "p_bins example_photon_list = [0, 2, 5]"
    by (simp add: example_photon_list_def PhotonList_init_def np_insert0_def np_cumsum_def
        example_photons_def u64_def)
  have "searchsorted_right [0, 2, 5 :: nat] 0 = 1" "searchsorted_right [0, 2, 5 :: nat] 1 = 1"
    "searchsorted_right [0, 2, 5 :: nat] 2 = 2" "searchsorted_right [0, 2, 5 :: nat] 3 = 2"
    "searchsorted_right [0, 2, 5 :: nat] 4 = 2"
    by (simp_all add: searchsorted_right_def bsearch_right.simps Let_def)
  then show ?thesis by (simp add: b obs_cell_def)
qed

lemma example_both_my_n_obs:
  "my_n_obs example_photon_list None None (Some (1 / 20)) (Some 100) = Inr 5"
proof -
  have p: "pl_parameters example_photon_list = example_parameters"
    and q: "pl_photons example_photon_list = example_photons"
    and c: "cosmo example_photon_list = example_cosmo"
    by (simp_all add: example_photon_list_def PhotonList_init_def)
  have f: "fak example_photon_list None None (Some (1 / 20)) (Some 100) = 1"
    by (simp add: fak_def Aratio_def Tratio_def Dratio_def zobs_of_def D_A_of_def p c
        example_parameters_def example_cosmo_def Let_def)
  have n: "np_sum (NumberOfPhotons (pl_photons example_photon_list)) = 5"
    by (simp add: q np_sum_def example_photons_def u64_def)
  show ?thesis by (simp add: my_n_obs_def f n np_uint64_def)
qed

text \<open>
  C9. The spec has a call with both \<^verbatim>\<open>redshift_new\<close> and \<^verbatim>\<open>dist_new\<close> rejected, with
  no event list. The code writes "You may specify a new redshift or distance, but not
  both!" to the log and goes on: on the example photon list, with the fiducial
  redshift 0.05 and a distance of 100 Mpc requested together, it returns an event
  list of all five photons, at the requested redshift and at the distance 200 Mpc of
  the cosmology; the requested distance is not used.
\<close>

theorem project_photons_redshift_and_distance:
  "case snd (project_photons example_externals example_generator example_photon_list (Axis Axis_z)
               None None (Some (1 / 20)) (Some 100) None None True None []) of
     Inl e \<Rightarrow> False
   | Inr ev \<Rightarrow>
       num_events ev = 5
     \<and> map_of (events ev) ''eobs'' = Some [1, 2, 3, 4, 5]
     \<and> Redshift (el_parameters ev) = 1 / 20
     \<and> AngularDiameterDistance (el_parameters ev) = 200"
proof -
  have p: "pl_parameters example_photon_list = example_parameters"
    and q: "pl_photons example_photon_list = example_photons"
    and c: "cosmo example_photon_list = example_cosmo"
    by (simp_all add: example_photon_list_def PhotonList_init_def)
  have n: "np_sum (NumberOfPhotons example_photons) = 5"
    by (simp add: np_sum_def example_photons_def u64_def)
  have u: "[0..<5] = [0, 1, 2, 3, 4]" by (simp add: upt_rec)
  have i: "idxs_of example_generator [] 5 5 = ([0, 1, 2, 3, 4], [])"
    by (simp add: idxs_of_def u)
  have d: "np_take (ph_dx example_photons) [0, 0, 1, 1, 1] = Inr [1, 1, 1, 1, 1]"
    by (simp add: np_take_def example_photons_def)
  have s: "sky_positions example_externals example_generator example_photon_list (Axis Axis_z) None
      [0, 0, 1, 1, 1] [1, 1, 1, 1, 1] 5 []
      = (Inr ([0, 0, 1, 1, 1], [0, 0, 1, 1, 1]),
         [Uniform (- 0.5) 0.5 5, Uniform (- 0.5) 0.5 5])"
    by (simp add: sky_positions_def p q example_parameters_def draw_offsets_def prng_uniform_def
        example_generator_def axes_lookup_def np_take_def example_photons_def numeral_eq_Suc)
  have sf: "scale_factor_of example_photon_list (Some (1 / 20)) = 1"
    by (simp add: scale_factor_of_def p example_parameters_def)
  have e: "eobs_of example_externals example_photon_list (Axis Axis_z) None True [0, 1, 2, 3, 4]
      [0, 0, 1, 1, 1] 1 = Inr [1, 2, 3, 4, 5]"
    by (simp add: eobs_of_def q np_take_def example_photons_def)
  have a: "detected_of example_externals example_generator None (arf_of None) [1, 2, 3, 4, 5]
      [Uniform (- 0.5) 0.5 5, Uniform (- 0.5) 0.5 5]
      = (Inr [True, True, True, True, True], [Uniform (- 0.5) 0.5 5, Uniform (- 0.5) 0.5 5])"
    by (simp add: detected_of_def arf_of_def numeral_eq_Suc)
  have "snd (project_photons example_externals example_generator example_photon_list (Axis Axis_z)
               None None (Some (1 / 20)) (Some 100) None None True None [])
      = EventList_init
          (events_of example_photon_list [0, 0, 1, 1, 1] [0, 0, 1, 1, 1] [1, 2, 3, 4, 5]
             [True, True, True, True, True])
          (event_parameters_of example_externals example_photon_list None None (Some (1 / 20))
             (Some 100) None)"
    by (simp only: project_photons_def Let_def q n example_both_my_n_obs sum.case i prod.case
        example_obs_cells d s sf e a snd_conv)
  then show ?thesis
    by (simp add: EventList_init_def events_of_def event_parameters_of_def np_mask_def zobs_of_def
        D_A_of_def c example_cosmo_def Let_def)
qed

section \<open>Merging event lists\<close>










text \<open>
  C7. The spec has the sum of two event lists with one geometry and one set of
  parameters hold, under every field, the left operand's array followed by the right
  operand's. \<open>example_a\<close> and \<open>example_d\<close> hold the same fields and parameters, and the
  dictionary of \<open>example_d\<close> iterates \<^verbatim>\<open>ypix\<close> before \<^verbatim>\<open>xpix\<close>: their sum, which the code
  pairs by position, holds the \<^verbatim>\<open>ypix\<close> of \<open>example_d\<close> under \<^verbatim>\<open>xpix\<close> and its \<^verbatim>\<open>xpix\<close>
  under \<^verbatim>\<open>ypix\<close>.
\<close>

theorem EventList_add_misordered_fields:
  "map_sum id events (EventList_add example_a example_d)
     = Inr [(''xpix'', [1, 20]), (''ypix'', [2, 10]), (''eobs'', [3, 30])]
   \<and> map_of (events example_a) ''xpix'' = Some [1]
   \<and> map_of (events example_d) ''xpix'' = Some [10]
   \<and> wcs example_a = wcs example_d
   \<and> el_parameters example_a = el_parameters example_d"
  by (simp add: EventList_add_def assert_same_wcs_def validate_parameters_def
      example_a_def example_d_def add_events_def EventList_init_def)

section \<open>The image of an event list\<close>















end
